theory Spec2Isabelle
  imports Main
begin

section \<open>Browser primitives used by the scripts\<close>

text \<open>
  A text on the page is a string, or \<open>Unprinted\<close>: the print of a number that lies
  beyond the range in which the model spells numbers out (see below). \<open>printed\<close> reads a
  text as far as it is spelled out.
\<close>

datatype caption = Str string | Unprinted

definition printed :: "caption \<Rightarrow> string option" where
  "printed t = (case t of Str s \<Rightarrow> Some s | Unprinted \<Rightarrow> None)"

text \<open>
  A DOM element as far as the scripts touch it: the \<open>disabled\<close> attribute, the visible
  text (the scripts write it through \<open>innerText\<close> and through \<open>textContent\<close>; on the plain
  elements concerned both replace the whole text, so one field stands for both), the class
  list and \<open>style.display\<close>. A lookup \<open>document.getElementById\<close> that finds nothing yields
  \<open>null\<close>, modelled as \<open>None\<close>.
\<close>

record element =
  disabled :: bool
  innerText :: caption
  classList :: "string list"
  display :: string

text \<open>\<open>classList.add\<close>, \<open>classList.remove\<close> and \<open>classList.toggle(name, force)\<close>.\<close>

definition classList_add :: "string \<Rightarrow> string list \<Rightarrow> string list" where
  "classList_add c cs = (if c \<in> set cs then cs else cs @ [c])"

definition classList_remove :: "string \<Rightarrow> string list \<Rightarrow> string list" where
  "classList_remove c cs = removeAll c cs"

definition classList_toggle :: "string \<Rightarrow> bool \<Rightarrow> string list \<Rightarrow> string list" where
  "classList_toggle c force cs = (if force then classList_add c cs else classList_remove c cs)"

text \<open>
  The browser's table of recurring timers. \<open>live\<close> holds the handles of the intervals that
  are still scheduled, \<open>next_id\<close> is the next handle \<open>setInterval\<close> hands out, and
  \<open>cancelled\<close> counts the calls of \<open>clearInterval\<close> that really removed a scheduled
  interval (a call on \<open>undefined\<close> or on a handle that is no longer scheduled removes
  nothing and is not counted).
\<close>

record timers =
  live :: "nat list"
  next_id :: nat
  cancelled :: nat

definition no_timers :: timers where
  "no_timers = \<lparr>live = [], next_id = 1, cancelled = 0\<rparr>"

definition setInterval :: "timers \<Rightarrow> nat \<times> timers" where
  "setInterval tm = (next_id tm, tm\<lparr>live := live tm @ [next_id tm], next_id := Suc (next_id tm)\<rparr>)"

definition clearInterval :: "nat option \<Rightarrow> timers \<Rightarrow> timers" where
  "clearInterval h tm =
     (case h of
        None \<Rightarrow> tm
      | Some i \<Rightarrow>
          if i \<in> set (live tm)
          then tm\<lparr>live := removeAll i (live tm), cancelled := Suc (cancelled tm)\<rparr>
          else tm)"

subsection \<open>Numbers and strings\<close>

text \<open>
  The countdown values are JavaScript numbers, that is doubles, and those the scripts
  count with are integers. A double that is an integer is modelled by that integer.
  Every integer of magnitude up to \<open>2^53\<close> is a double and the scripts' arithmetic is
  exact there (\<open>safe\<close>); beyond, the doubles are the integers with 53 significant bits,
  and a magnitude of \<open>2^1024\<close> or more stands for an infinity. An \<open>int\<close> that is no double
  stands for no value of the scripts. A string is a list of code units; \<open>char\<close> covers
  the code units below 256.
\<close>

definition safe :: "int \<Rightarrow> bool" where
  "safe i = (\<bar>i\<bar> \<le> 2 ^ 53)"

text \<open>
  The double nearest to an integer that is not negative: the number itself up to \<open>2^53\<close>, beyond that
  its 53 leading bits, rounded to nearest, a tie going to the even significand.
\<close>

function bitLength :: "int \<Rightarrow> nat" where
  "bitLength n = (if n \<le> 0 then 0 else Suc (bitLength (n div 2)))"
  by pat_completeness auto
termination
  by (relation "measure nat") auto

declare bitLength.simps [simp del]

definition toDouble :: "int \<Rightarrow> int" where
  "toDouble a =
     (if a \<le> 2 ^ 53 then a
      else
        let e = bitLength a - 53;
            q = a div 2 ^ e;
            r = a mod 2 ^ e;
            half = 2 ^ (e - 1);
            q' = (if half < r \<or> (r = half \<and> odd q) then q + 1 else q)
        in q' * 2 ^ e)"

text \<open>
  The postfix decrement \<open>x--\<close> on a double that is an integer: \<open>x - 1\<close> rounded to a
  double. Up to \<open>2^53\<close> that is \<open>x - 1\<close>. Between \<open>2^53\<close> and \<open>2^54\<close> the doubles are the
  even integers, \<open>x - 1\<close> lies half way between \<open>x - 2\<close> and \<open>x\<close>, and the one with the even
  significand is taken. From \<open>2^54\<close> on \<open>x - 1\<close> rounds back to \<open>x\<close>: the value no longer
  changes.
\<close>

definition decrement :: "int \<Rightarrow> int" where
  "decrement x =
     (if - (2 ^ 53) < x \<and> x \<le> 2 ^ 53 then x - 1
      else if \<bar>x\<bar> < 2 ^ 54 \<and> odd (\<bar>x\<bar> div 2) then x - 2
      else x)"

definition digit :: "nat \<Rightarrow> char" where
  "digit n = char_of (48 + n)"

function digits :: "nat \<Rightarrow> string" where
  "digits n = (if n < 10 then [digit n] else digits (n div 10) @ [digit (n mod 10)])"
  by pat_completeness auto
termination
  by (relation "measure id") auto

declare digits.simps [simp del]

text \<open>The decimal notation of an integer.\<close>

definition decimal :: "int \<Rightarrow> string" where
  "decimal i = (if i < 0 then CHR ''-'' # digits (nat (- i)) else digits (nat i))"

text \<open>
  \<open>Number.prototype.toString\<close> (and the conversion of a number to a string in a
  template or an assignment to \<open>textContent\<close>): a safe integer is printed with all its
  digits. A larger double is printed with its shortest distinguishing digits, padded
  with zeros or in exponent form; the model does not spell that out.
\<close>

definition toString :: "int \<Rightarrow> caption" where
  "toString i = (if safe i then Str (decimal i) else Unprinted)"

text \<open>\<open>String.prototype.padStart(targetLength, padString)\<close>.\<close>

definition padStart :: "nat \<Rightarrow> string \<Rightarrow> string \<Rightarrow> string" where
  "padStart targetLength padString s =
     (if targetLength \<le> length s \<or> padString = [] then s
      else take (targetLength - length s)
             (concat (replicate (targetLength - length s) padString)) @ s)"

text \<open>The remainder operator \<open>%\<close>: the result has the sign of the dividend.\<close>

definition js_rem :: "int \<Rightarrow> int \<Rightarrow> int" where
  "js_rem a b = sgn a * (\<bar>a\<bar> mod \<bar>b\<bar>)"

text \<open>
  \<open>parseInt(string, 10)\<close>: leading white space is skipped, one sign is read, then the
  longest run of decimal digits; with no digit the result is \<open>NaN\<close>, modelled as \<open>None\<close>.
  Whatever follows the digits is ignored. The result is the double nearest to the
  integer the digits denote, so that integer itself when it is at most \<open>2^53\<close>. (The
  language lets an implementation ignore the digits after the 20th; the model takes
  all digits, as the engines in use do.)
\<close>

definition isWhiteSpace :: "char \<Rightarrow> bool" where
  "isWhiteSpace c = (of_char c \<in> {9, 10, 11, 12, 13, 32, 160 :: nat})"

definition isDigit :: "char \<Rightarrow> bool" where
  "isDigit c = (48 \<le> (of_char c :: nat) \<and> (of_char c :: nat) \<le> 57)"

definition digitsValue :: "string \<Rightarrow> int" where
  "digitsValue z = foldl (\<lambda>acc c. 10 * acc + (of_char c - 48)) 0 z"

definition parseInt :: "string \<Rightarrow> int option" where
  "parseInt inputString =
     (let S = dropWhile isWhiteSpace inputString;
          sign = (if S \<noteq> [] \<and> hd S = CHR ''-'' then - 1 else 1 :: int);
          S' = (if S \<noteq> [] \<and> (hd S = CHR ''+'' \<or> hd S = CHR ''-'') then tl S else S);
          Z = takeWhile isDigit S'
      in if Z = [] then None else Some (sign * toDouble (digitsValue Z)))"

section \<open>token_timer.js\<close>

text \<open>
  The page as the script finds it: the elements \<open>#token-timer\<close>, \<open>#resend-btn\<close> and
  \<open>#verify-btn\<close> (each may be missing) and the \<open>data-seconds\<close> attribute of
  \<open>#token-timer\<close> (which may be missing as well).
\<close>

record token_page =
  token_timer_el :: "element option"
  data_seconds :: "string option"
  resend_btn_el :: "element option"
  verify_btn_el :: "element option"

text \<open>
  The module state: the variables \<open>countdown\<close>, \<open>timerDisplay\<close>, \<open>resendButton\<close>,
  \<open>verifyButton\<close> and \<open>timerInterval\<close>, the nodes appended to the parent of the timer
  display, and the browser's timer table.
\<close>

record token_timer =
  countdown :: int
  timerDisplay :: "element option"
  resendButton :: "element option"
  verifyButton :: "element option"
  timerInterval :: "nat option"
  parentAppended :: "element list"
  tt_timers :: timers

text \<open>
  Lines 9 to 15: \<open>document.getElementById("token-timer")?.dataset.seconds\<close> is
  \<open>undefined\<close> when the element or the attribute is missing, and \<open>parseInt\<close> reads
  \<open>undefined\<close> as the string \<open>"undefined"\<close>. \<open>NaN\<close> is replaced by 180.
  These lines run when the script is loaded and \<open>initTokenTimer\<close> runs at
  \<open>DOMContentLoaded\<close>; the page is taken to be the same at both moments.
\<close>

definition countdownRaw :: "token_page \<Rightarrow> string option" where
  "countdownRaw p = (case token_timer_el p of None \<Rightarrow> None | Some _ \<Rightarrow> data_seconds p)"

definition initialCountdown :: "string option \<Rightarrow> int" where
  "initialCountdown raw =
     (case parseInt (case raw of None \<Rightarrow> ''undefined'' | Some s \<Rightarrow> s) of
        None \<Rightarrow> 180
      | Some n \<Rightarrow> n)"

text \<open>
  The texts the script writes. The source's messages start with an emoji and use a long
  dash; both are left out or written in ASCII here.
\<close>

definition expiredMessage :: string where
  "expiredMessage = ''Token invalid or expired - please request a new code.''"

definition warningDiv :: element where
  "warningDiv = \<lparr>disabled = False,
     innerText = Str ''After 3 failed attempts, your session will be blocked.'',
     classList = [''text-warning'', ''small'', ''mt-2'', ''text-center''],
     display = ''''\<rparr>"

text \<open>
  Lines 59 to 63, for a safe value of \<open>countdown\<close>: there \<open>Math.floor(countdown / 60)\<close>
  is the integer quotient (the rounding of the division cannot reach the next
  integer) and the remainder is exact. For a larger double the quotient is rounded
  and the text is not spelled out.
\<close>

definition timerString :: "int \<Rightarrow> string" where
  "timerString c =
     ''Token expires in '' @ decimal (c div 60) @ '':'' @
       padStart 2 ''0'' (decimal (js_rem c 60)) @ '' seconds''"

definition timerText :: "int \<Rightarrow> caption" where
  "timerText c = (if safe c then Str (timerString c) else Unprinted)"

definition updateTimer :: "token_timer \<Rightarrow> token_timer" where
  "updateTimer s =
     (case timerDisplay s of
        None \<Rightarrow> s
      | Some d \<Rightarrow>
          if countdown s \<le> 0 then
            s\<lparr>tt_timers := clearInterval (timerInterval s) (tt_timers s),
              timerDisplay := Some (d\<lparr>innerText := Str expiredMessage\<rparr>),
              parentAppended := parentAppended s @ [warningDiv],
              resendButton :=
                (case resendButton s of
                   None \<Rightarrow> None
                 | Some b \<Rightarrow> Some (b\<lparr>disabled := False,
                     classList := classList_add ''btn-resend-active''
                       (classList_remove ''btn-resend-disabled'' (classList b)),
                     innerText := Str ''Re-send Code''\<rparr>)),
              verifyButton :=
                (case verifyButton s of
                   None \<Rightarrow> None
                 | Some b \<Rightarrow> Some (b\<lparr>disabled := True,
                     classList := classList_add ''btn-verify-disabled'' (classList b)\<rparr>))\<rparr>
          else
            s\<lparr>timerDisplay := Some (d\<lparr>innerText := timerText (countdown s)\<rparr>),
              countdown := decrement (countdown s)\<rparr>)"

definition initTokenTimer :: "token_page \<Rightarrow> token_timer" where
  "initTokenTimer p =
     (let s0 = \<lparr>countdown = initialCountdown (countdownRaw p),
                timerDisplay = token_timer_el p,
                resendButton = resend_btn_el p,
                verifyButton = verify_btn_el p,
                timerInterval = None,
                parentAppended = [],
                tt_timers = no_timers\<rparr>
      in case timerDisplay s0 of
           None \<Rightarrow> s0
         | Some _ \<Rightarrow>
             let s1 = s0\<lparr>resendButton :=
                          (case resendButton s0 of
                             None \<Rightarrow> None
                           | Some b \<Rightarrow> Some (b\<lparr>disabled := True,
                               classList := classList_add ''btn-resend-disabled'' (classList b)\<rparr>)),
                        verifyButton :=
                          (case verifyButton s0 of
                             None \<Rightarrow> None
                           | Some b \<Rightarrow> Some (b\<lparr>disabled := False,
                               classList := classList_remove ''btn-verify-disabled'' (classList b)\<rparr>))\<rparr>;
                 s2 = updateTimer s1;
                 (h, tm) = setInterval (tt_timers s2)
             in s2\<lparr>timerInterval := Some h, tt_timers := tm\<rparr>)"

text \<open>
  One second passes: the browser runs the interval's callback \<open>updateTimer\<close> if an
  interval is still scheduled, and nothing otherwise.
\<close>

definition tick :: "token_timer \<Rightarrow> token_timer" where
  "tick s = (if live (tt_timers s) = [] then s else updateTimer s)"

primrec ticks :: "nat \<Rightarrow> token_timer \<Rightarrow> token_timer" where
  "ticks 0 s = s"
| "ticks (Suc k) s = tick (ticks k s)"

text \<open>
  What the page shows of the controller: a control counts as enabled when it is bound
  and not disabled; \<open>shown\<close> is the text of an element, when the element is on the page
  and the text is spelled out.
\<close>

definition enabled :: "element option \<Rightarrow> bool" where
  "enabled e = (case e of None \<Rightarrow> False | Some b \<Rightarrow> \<not> disabled b)"

definition shown :: "element option \<Rightarrow> string option" where
  "shown e = (case e of None \<Rightarrow> None | Some b \<Rightarrow> printed (innerText b))"

section \<open>token_status_checker.js\<close>

text \<open>
  The configuration object the page passes to \<open>initTokenStatusChecker\<close> (its three
  flags taken as booleans, its countdown as a double that is an integer; the script
  validates none of them), and the four elements the script looks up (each may be
  missing).
\<close>

record config =
  cfg_canVerify :: bool
  cfg_canResend :: bool
  cfg_isExpired :: bool
  cfg_initialCountdown :: int

record checker_page =
  verification_code_el :: "element option"
  verify_code_button_el :: "element option"
  resend_code_button_el :: "element option"
  countdown_timer_el :: "element option"

text \<open>
  The closure's variables: the object \<open>state\<close> (fields \<open>canVerify\<close>, \<open>canResend\<close>,
  \<open>isExpired\<close>, \<open>timeLeft\<close>), the four element constants (the source calls the two
  buttons \<open>verifyButton\<close> and \<open>resendButton\<close>; the names carry a prefix here because
  token_timer.js uses the same ones), \<open>countdownInterval\<close>, and the timer table.
\<close>

record checker =
  canVerify :: bool
  canResend :: bool
  isExpired :: bool
  timeLeft :: int
  codeTextarea :: "element option"
  sc_verifyButton :: "element option"
  sc_resendButton :: "element option"
  countdownTimerEl :: "element option"
  countdownInterval :: "nat option"
  sc_timers :: timers

definition updateUI :: "checker \<Rightarrow> checker" where
  "updateUI s =
     s\<lparr>codeTextarea :=
         (case codeTextarea s of
            None \<Rightarrow> None
          | Some e \<Rightarrow> Some (e\<lparr>disabled := \<not> canVerify s\<rparr>)),
       sc_verifyButton :=
         (case sc_verifyButton s of
            None \<Rightarrow> None
          | Some e \<Rightarrow> Some (e\<lparr>disabled := \<not> canVerify s\<rparr>)),
       sc_resendButton :=
         (case sc_resendButton s of
            None \<Rightarrow> None
          | Some e \<Rightarrow> Some (e\<lparr>disabled := \<not> canResend s\<rparr>))\<rparr>"

text \<open>The callback handed to \<open>setInterval\<close> (lines 46 to 62).\<close>

definition countdownCallback :: "checker \<Rightarrow> checker" where
  "countdownCallback s =
     (let s1 = s\<lparr>timeLeft := decrement (timeLeft s)\<rparr>;
          s2 = s1\<lparr>countdownTimerEl :=
                 (case countdownTimerEl s1 of
                    None \<Rightarrow> None
                  | Some e \<Rightarrow> Some (e\<lparr>innerText := toString (timeLeft s1)\<rparr>))\<rparr>
      in if timeLeft s2 \<le> 0 then
           updateUI
             (s2\<lparr>sc_timers := clearInterval (countdownInterval s2) (sc_timers s2),
                 isExpired := True,
                 canVerify := False,
                 canResend := True\<rparr>)
         else s2)"

definition startCountdown :: "checker \<Rightarrow> checker" where
  "startCountdown s =
     (let s1 = s\<lparr>sc_timers := clearInterval (countdownInterval s) (sc_timers s)\<rparr>
      in if timeLeft s1 \<le> 0 then
           updateUI
             (s1\<lparr>countdownTimerEl :=
                   (case countdownTimerEl s1 of
                      None \<Rightarrow> None
                    | Some e \<Rightarrow> Some (e\<lparr>innerText := Str ''0''\<rparr>))\<rparr>)
         else
           (let (h, tm) = setInterval (sc_timers s1)
            in s1\<lparr>countdownInterval := Some h, sc_timers := tm\<rparr>))"

definition initTokenStatusChecker :: "checker_page \<Rightarrow> config \<Rightarrow> checker" where
  "initTokenStatusChecker p cfg =
     startCountdown
       (updateUI
          \<lparr>canVerify = cfg_canVerify cfg,
           canResend = cfg_canResend cfg,
           isExpired = cfg_isExpired cfg,
           timeLeft = cfg_initialCountdown cfg,
           codeTextarea = verification_code_el p,
           sc_verifyButton = verify_code_button_el p,
           sc_resendButton = resend_code_button_el p,
           countdownTimerEl = countdown_timer_el p,
           countdownInterval = None,
           sc_timers = no_timers\<rparr>)"

text \<open>One second passes: the callback runs if the interval is still scheduled.\<close>

definition sc_tick :: "checker \<Rightarrow> checker" where
  "sc_tick s = (if live (sc_timers s) = [] then s else countdownCallback s)"

primrec sc_ticks :: "nat \<Rightarrow> checker \<Rightarrow> checker" where
  "sc_ticks 0 s = s"
| "sc_ticks (Suc k) s = sc_tick (sc_ticks k s)"

section \<open>verify_account.js\<close>

text \<open>
  The third countdown script. Its \<open>updateTimer\<close> looks the element \<open>#timer\<close> up at every
  call and writes to it without a test, so a missing element raises a \<open>TypeError\<close>; the
  resend button is tested before use. It reschedules itself with \<open>setTimeout\<close>;
  \<open>va_pending\<close> tells whether a call is scheduled. The names carry the suffix \<open>va\<close>
  because token_timer.js has a \<open>countdown\<close> and an \<open>updateTimer\<close> of its own. The text
  \<open>minutes:seconds\<close> is spelled out for a safe value of the counter (the script itself
  only ever counts from 60).
\<close>

datatype js_error = TypeError




section \<open>password_checklist.js\<close>

text \<open>
  The regular expressions of the input listener are single character classes, so
  \<open>re.test(val)\<close> asks whether some code unit of \<open>val\<close> lies in the class: a class is a
  list of ranges of code units, possibly negated.
\<close>

definition in_class :: "(char \<times> char) list \<Rightarrow> char \<Rightarrow> bool" where
  "in_class ranges c =
     list_ex (\<lambda>(lo, hi). (of_char lo :: nat) \<le> of_char c \<and> (of_char c :: nat) \<le> of_char hi) ranges"

definition test_class :: "bool \<Rightarrow> (char \<times> char) list \<Rightarrow> string \<Rightarrow> bool" where
  "test_class negated ranges val = list_ex (\<lambda>c. in_class ranges c \<noteq> negated) val"

text \<open>The object \<open>rules\<close>, in the order of its keys.\<close>

definition rules :: "string \<Rightarrow> (string \<times> bool) list" where
  "rules val =
     [(''length'', 8 \<le> length val),
      (''uppercase'', test_class False [(CHR ''A'', CHR ''Z'')] val),
      (''lowercase'', test_class False [(CHR ''a'', CHR ''z'')] val),
      (''number'', test_class False [(CHR ''0'', CHR ''9'')] val),
      (''symbol'', test_class True [(CHR ''A'', CHR ''Z''), (CHR ''a'', CHR ''z''), (CHR ''0'', CHR ''9'')] val)]"

text \<open>
  The page of the listener: the object \<open>checklist\<close> (a key whose element was not found
  holds \<open>null\<close>, here \<open>None\<close>) and the container. Neither is tested before use, so a
  missing one raises a \<open>TypeError\<close> and the listener stops there (the items toggled
  before the error stay toggled on the page; the error result does not record them).
\<close>

record checklist_dom =
  checklist :: "string \<rightharpoonup> element"
  checklistContainer :: "element option"

fun toggle_items :: "(string \<times> bool) list \<Rightarrow> (string \<rightharpoonup> element) \<Rightarrow> js_error + (string \<rightharpoonup> element)" where
  "toggle_items [] cl = Inr cl"
| "toggle_items ((key, valid) # rest) cl =
     (case cl key of
        None \<Rightarrow> Inl TypeError
      | Some e \<Rightarrow>
          toggle_items rest (cl(key \<mapsto> e\<lparr>classList := classList_toggle ''valid'' valid (classList e)\<rparr>)))"

definition on_input :: "string \<Rightarrow> checklist_dom \<Rightarrow> js_error + checklist_dom" where
  "on_input val pg =
     (case toggle_items (rules val) (checklist pg) of
        Inl e \<Rightarrow> Inl e
      | Inr cl \<Rightarrow>
          (let allValid = list_all (\<lambda>v. v) (map snd (rules val))
           in (case checklistContainer pg of
                 None \<Rightarrow> Inl TypeError
               | Some c \<Rightarrow>
                   Inr (pg\<lparr>checklist := cl,
                          checklistContainer :=
                            Some (c\<lparr>display := (if allValid then ''none'' else ''block'')\<rparr>)\<rparr>))))"

section \<open>Sample pages\<close>

text \<open>
  Concrete pages and configurations on which the results below are instantiated: an
  element with no text and no class, a token page and a checker page on which every
  element is present, and a checklist with its five items and its container.
\<close>

definition blank :: element where
  "blank = \<lparr>disabled = False, innerText = Str [], classList = [], display = []\<rparr>"

definition sample_page :: "string \<Rightarrow> token_page" where
  "sample_page secs =
     \<lparr>token_timer_el = Some blank, data_seconds = Some secs,
      resend_btn_el = Some blank, verify_btn_el = Some blank\<rparr>"

definition sample_checker_page :: checker_page where
  "sample_checker_page =
     \<lparr>verification_code_el = Some blank, verify_code_button_el = Some blank,
      resend_code_button_el = Some blank, countdown_timer_el = Some blank\<rparr>"

definition sample_config :: "bool \<Rightarrow> bool \<Rightarrow> bool \<Rightarrow> int \<Rightarrow> config" where
  "sample_config v r e n =
     \<lparr>cfg_canVerify = v, cfg_canResend = r, cfg_isExpired = e, cfg_initialCountdown = n\<rparr>"

definition sample_checklist :: checklist_dom where
  "sample_checklist =
     \<lparr>checklist = [''length'' \<mapsto> blank, ''uppercase'' \<mapsto> blank, ''lowercase'' \<mapsto> blank,
                   ''number'' \<mapsto> blank, ''symbol'' \<mapsto> blank],
      checklistContainer = Some blank\<rparr>"

section \<open>Steps of the two interval-driven controllers\<close>

lemma printed_simps [simp]:
  "printed (Str s) = Some s" "printed Unprinted = None"
  by (simp_all add: printed_def)

lemma enabled_simps [simp]:
  "enabled None = False" "enabled (Some b) = (\<not> disabled b)"
  by (simp_all add: enabled_def)

lemma shown_simps [simp]:
  "shown None = None" "shown (Some b) = printed (innerText b)"
  by (simp_all add: shown_def)

lemma shown_bound: "shown e = Some t \<Longrightarrow> e \<noteq> None"
  by (cases e) simp_all

lemma decrement_exact: "- (2 ^ 53) < x \<Longrightarrow> x \<le> 2 ^ 53 \<Longrightarrow> decrement x = x - 1"
  by (simp add: decrement_def)

lemma decrement_le: "decrement x \<le> x"
  by (simp add: decrement_def)

lemma safe_range: "- (2 ^ 53) \<le> x \<Longrightarrow> x \<le> 2 ^ 53 \<Longrightarrow> safe x"
  by (simp add: safe_def)

lemma updateTimer_running:
  assumes "timerDisplay s = Some d" "0 < countdown s" "countdown s \<le> 2 ^ 53"
  shows "updateTimer s =
    s\<lparr>timerDisplay := Some (d\<lparr>innerText := Str (timerString (countdown s))\<rparr>),
      countdown := countdown s - 1\<rparr>"
  using assms by (simp add: updateTimer_def decrement_exact timerText_def safe_def)

lemma tick_stopped: "live (tt_timers s) = [] \<Longrightarrow> tick s = s"
  by (simp add: tick_def)

lemma ticks_stopped: "live (tt_timers s) = [] \<Longrightarrow> ticks k s = s"
  by (induction k) (simp_all add: tick_stopped)

lemma ticks_add: "ticks (j + k) s = ticks k (ticks j s)"
  by (induction k) simp_all

lemma ticks_running:
  assumes "timerDisplay s \<noteq> None" "live (tt_timers s) \<noteq> []" "int k \<le> countdown s"
    "countdown s \<le> 2 ^ 53"
  shows "countdown (ticks k s) = countdown s - int k \<and>
         resendButton (ticks k s) = resendButton s \<and>
         verifyButton (ticks k s) = verifyButton s \<and>
         tt_timers (ticks k s) = tt_timers s \<and>
         timerInterval (ticks k s) = timerInterval s \<and>
         parentAppended (ticks k s) = parentAppended s \<and>
         timerDisplay (ticks k s) \<noteq> None \<and>
         (0 < k \<longrightarrow> shown (timerDisplay (ticks k s)) = Some (timerString (countdown s - int k + 1)))"
  using assms
proof (induction k)
  case 0
  then show ?case by simp
next
  case (Suc k)
  then have IH: "countdown (ticks k s) = countdown s - int k"
    "resendButton (ticks k s) = resendButton s"
    "verifyButton (ticks k s) = verifyButton s"
    "tt_timers (ticks k s) = tt_timers s"
    "timerInterval (ticks k s) = timerInterval s"
    "parentAppended (ticks k s) = parentAppended s"
    "timerDisplay (ticks k s) \<noteq> None"
    by simp_all
  from IH(7) obtain d where d: "timerDisplay (ticks k s) = Some d" by auto
  from Suc.prems IH(1) have pos: "0 < countdown (ticks k s)" by simp
  from Suc.prems IH(1) have up: "countdown (ticks k s) \<le> 2 ^ 53" by simp
  from Suc.prems IH(4) have lv: "live (tt_timers (ticks k s)) \<noteq> []" by simp
  have step: "ticks (Suc k) s = (ticks k s)\<lparr>timerDisplay := Some (d\<lparr>innerText := Str (timerString (countdown (ticks k s)))\<rparr>),
      countdown := countdown (ticks k s) - 1\<rparr>"
    using lv updateTimer_running [OF d pos up] by (simp add: tick_def)
  show ?case
    unfolding step using IH by simp
qed

lemma tick_expire:
  assumes "timerDisplay s \<noteq> None" "live (tt_timers s) = [h]" "timerInterval s = Some h"
    "countdown s \<le> 0"
  shows "countdown (tick s) = countdown s \<and>
         shown (timerDisplay (tick s)) = Some expiredMessage \<and>
         enabled (resendButton (tick s)) = (resendButton s \<noteq> None) \<and>
         \<not> enabled (verifyButton (tick s)) \<and>
         live (tt_timers (tick s)) = [] \<and>
         cancelled (tt_timers (tick s)) = Suc (cancelled (tt_timers s)) \<and>
         parentAppended (tick s) = parentAppended s @ [warningDiv]"
  using assms
  by (auto simp: tick_def updateTimer_def clearInterval_def split: option.splits)

lemma init_bound:
  assumes "token_timer_el p = Some d"
  shows "initTokenTimer p =
    (let s1 = \<lparr>countdown = initialCountdown (data_seconds p),
                timerDisplay = Some d,
                resendButton = map_option (\<lambda>b. b\<lparr>disabled := True,
                    classList := classList_add ''btn-resend-disabled'' (classList b)\<rparr>) (resend_btn_el p),
                verifyButton = map_option (\<lambda>b. b\<lparr>disabled := False,
                               classList := classList_remove ''btn-verify-disabled'' (classList b)\<rparr>) (verify_btn_el p),
                timerInterval = None,
                parentAppended = [],
                tt_timers = no_timers\<rparr>
     in (updateTimer s1)\<lparr>timerInterval := Some (next_id (tt_timers (updateTimer s1))), tt_timers := snd (setInterval (tt_timers (updateTimer s1)))\<rparr>)"
  using assms
  by (simp add: initTokenTimer_def countdownRaw_def Let_def setInterval_def split: option.splits)

lemma init_running:
  assumes "token_timer_el p = Some d" "0 < initialCountdown (data_seconds p)"
    "initialCountdown (data_seconds p) \<le> 2 ^ 53"
  shows "countdown (initTokenTimer p) = initialCountdown (data_seconds p) - 1 \<and>
         shown (timerDisplay (initTokenTimer p)) = Some (timerString (initialCountdown (data_seconds p))) \<and>
         \<not> enabled (resendButton (initTokenTimer p)) \<and>
         enabled (verifyButton (initTokenTimer p)) = (verify_btn_el p \<noteq> None) \<and>
         timerInterval (initTokenTimer p) = Some 1 \<and>
         live (tt_timers (initTokenTimer p)) = [1] \<and>
         cancelled (tt_timers (initTokenTimer p)) = 0 \<and>
         parentAppended (initTokenTimer p) = []"
  using assms(2,3)
  by (cases "resend_btn_el p"; cases "verify_btn_el p")
     (simp_all add: init_bound [OF assms(1)] Let_def updateTimer_def setInterval_def no_timers_def
        decrement_exact timerText_def safe_def)

lemma init_expired:
  assumes "token_timer_el p = Some d" "initialCountdown (data_seconds p) \<le> 0"
  shows "countdown (initTokenTimer p) = initialCountdown (data_seconds p) \<and>
         shown (timerDisplay (initTokenTimer p)) = Some expiredMessage \<and>
         enabled (resendButton (initTokenTimer p)) = (resend_btn_el p \<noteq> None) \<and>
         \<not> enabled (verifyButton (initTokenTimer p)) \<and>
         timerInterval (initTokenTimer p) = Some 1 \<and>
         live (tt_timers (initTokenTimer p)) = [1] \<and>
         cancelled (tt_timers (initTokenTimer p)) = 0 \<and>
         parentAppended (initTokenTimer p) = [warningDiv]"
  using assms(2)
  by (cases "resend_btn_el p"; cases "verify_btn_el p")
     (simp_all add: init_bound [OF assms(1)] Let_def updateTimer_def setInterval_def no_timers_def clearInterval_def)

lemma init_resend_bound:
  assumes "token_timer_el p = Some d"
  shows "(resendButton (initTokenTimer p) \<noteq> None) = (resend_btn_el p \<noteq> None)"
  by (cases "resend_btn_el p")
     (simp_all add: init_bound [OF assms] Let_def updateTimer_def)

lemma tt_before_expiry:
  assumes "token_timer_el p = Some d" "int k < initialCountdown (data_seconds p)"
    "initialCountdown (data_seconds p) \<le> 2 ^ 53"
  shows "countdown (ticks k (initTokenTimer p)) = initialCountdown (data_seconds p) - int k - 1 \<and>
         shown (timerDisplay (ticks k (initTokenTimer p))) =
           Some (timerString (initialCountdown (data_seconds p) - int k)) \<and>
         \<not> enabled (resendButton (ticks k (initTokenTimer p))) \<and>
         enabled (verifyButton (ticks k (initTokenTimer p))) = (verify_btn_el p \<noteq> None) \<and>
         live (tt_timers (ticks k (initTokenTimer p))) = [1] \<and>
         cancelled (tt_timers (ticks k (initTokenTimer p))) = 0 \<and>
         parentAppended (ticks k (initTokenTimer p)) = []"
proof -
  let ?n = "initialCountdown (data_seconds p)"
  let ?s = "initTokenTimer p"
  from assms(2) have pos: "0 < ?n" by simp
  note I = init_running [OF assms(1) pos assms(3)]
  from I have disp: "timerDisplay ?s \<noteq> None" by (auto dest: shown_bound)
  from I have lv: "live (tt_timers ?s) \<noteq> []" by simp
  from I assms(2) have le: "int k \<le> countdown ?s" by simp
  from I assms(3) have up: "countdown ?s \<le> 2 ^ 53" by simp
  note R = ticks_running [OF disp lv le up]
  show ?thesis
  proof (cases k)
    case 0
    with I show ?thesis by simp
  next
    case (Suc j)
    with R I show ?thesis by (simp add: algebra_simps)
  qed
qed

lemma tt_after_expiry:
  assumes "token_timer_el p = Some d" "initialCountdown (data_seconds p) \<le> int k"
    "initialCountdown (data_seconds p) \<le> 2 ^ 53"
  shows "countdown (ticks k (initTokenTimer p)) = min (initialCountdown (data_seconds p)) 0 \<and>
         shown (timerDisplay (ticks k (initTokenTimer p))) = Some expiredMessage \<and>
         enabled (resendButton (ticks k (initTokenTimer p))) = (resend_btn_el p \<noteq> None) \<and>
         \<not> enabled (verifyButton (ticks k (initTokenTimer p))) \<and>
         live (tt_timers (ticks k (initTokenTimer p))) = (if k = 0 then [1] else []) \<and>
         cancelled (tt_timers (ticks k (initTokenTimer p))) = (if k = 0 then 0 else 1)"
proof -
  let ?n = "initialCountdown (data_seconds p)"
  let ?s = "initTokenTimer p"
  show ?thesis
  proof (cases "0 < ?n")
    case False
    then have le: "?n \<le> 0" by simp
    note I = init_expired [OF assms(1) le]
    show ?thesis
    proof (cases k)
      case 0
      with I le show ?thesis by simp
    next
      case (Suc j)
      from I have disp: "timerDisplay ?s \<noteq> None" by (auto dest: shown_bound)
      from I le have E: "countdown (tick ?s) = countdown ?s \<and>
         shown (timerDisplay (tick ?s)) = Some expiredMessage \<and>
         enabled (resendButton (tick ?s)) = (resendButton ?s \<noteq> None) \<and>
         \<not> enabled (verifyButton (tick ?s)) \<and>
         live (tt_timers (tick ?s)) = [] \<and>
         cancelled (tt_timers (tick ?s)) = Suc (cancelled (tt_timers ?s)) \<and>
         parentAppended (tick ?s) = parentAppended ?s @ [warningDiv]"
        by (intro tick_expire [OF disp, of 1]) simp_all
      have "ticks k ?s = ticks j (ticks 1 ?s)"
        using ticks_add [of 1 j ?s] Suc by simp
      also have "\<dots> = tick ?s"
        using E by (simp add: ticks_stopped)
      finally have eq: "ticks k ?s = tick ?s" .
      note rb = init_resend_bound [OF assms(1)]
      show ?thesis
        unfolding eq using E I le rb Suc by simp
    qed
  next
    case True
    note I = init_running [OF assms(1) True assms(3)]
    from I have disp: "timerDisplay ?s \<noteq> None" by (auto dest: shown_bound)
    from I have lv: "live (tt_timers ?s) \<noteq> []" by simp
    define m where "m = nat ?n - 1"
    from True I have le: "int m \<le> countdown ?s" by (simp add: m_def)
    from I assms(3) have up: "countdown ?s \<le> 2 ^ 53" by simp
    note R = ticks_running [OF disp lv le up]
    let ?t = "ticks m ?s"
    from R I True have t: "timerDisplay ?t \<noteq> None" "live (tt_timers ?t) = [1]"
      "timerInterval ?t = Some 1" "countdown ?t \<le> 0" "countdown ?t = 0"
      by (simp_all add: m_def)
    note E = tick_expire [OF t(1) t(2) t(3) t(4)]
    from True assms(2) have k: "k = Suc m + (k - Suc m)" "0 < k" by (simp_all add: m_def)
    have "ticks k ?s = ticks (k - Suc m) (ticks (Suc m) ?s)"
      using ticks_add [of "Suc m" "k - Suc m" ?s] k(1) by simp
    also have "\<dots> = tick ?t"
      using E by (simp add: ticks_stopped)
    finally have eq: "ticks k ?s = tick ?t" .
    note rb = init_resend_bound [OF assms(1)]
    show ?thesis
      unfolding eq using E R I True t k(2) rb by simp
  qed
qed


lemma toString_safe: "- (2 ^ 53) \<le> x \<Longrightarrow> x \<le> 2 ^ 53 \<Longrightarrow> toString x = Str (decimal x)"
  by (simp add: toString_def safe_def)

lemma sc_tick_stopped: "live (sc_timers s) = [] \<Longrightarrow> sc_tick s = s"
  by (simp add: sc_tick_def)

lemma sc_ticks_stopped: "live (sc_timers s) = [] \<Longrightarrow> sc_ticks k s = s"
  by (induction k) (simp_all add: sc_tick_stopped)

lemma sc_ticks_add: "sc_ticks (j + k) s = sc_ticks k (sc_ticks j s)"
  by (induction k) simp_all

lemma countdownCallback_running:
  assumes "1 < timeLeft s" "timeLeft s \<le> 2 ^ 53"
  shows "countdownCallback s =
    s\<lparr>timeLeft := timeLeft s - 1,
      countdownTimerEl :=
        (case countdownTimerEl s of
           None \<Rightarrow> None
         | Some e \<Rightarrow> Some (e\<lparr>innerText := Str (decimal (timeLeft s - 1))\<rparr>))\<rparr>"
  using assms
  by (simp add: countdownCallback_def Let_def decrement_exact toString_safe split: option.splits)

lemma sc_ticks_running:
  assumes "live (sc_timers s) \<noteq> []" "int k < timeLeft s" "timeLeft s \<le> 2 ^ 53"
  shows "timeLeft (sc_ticks k s) = timeLeft s - int k \<and>
         canVerify (sc_ticks k s) = canVerify s \<and>
         canResend (sc_ticks k s) = canResend s \<and>
         isExpired (sc_ticks k s) = isExpired s \<and>
         codeTextarea (sc_ticks k s) = codeTextarea s \<and>
         sc_verifyButton (sc_ticks k s) = sc_verifyButton s \<and>
         sc_resendButton (sc_ticks k s) = sc_resendButton s \<and>
         countdownInterval (sc_ticks k s) = countdownInterval s \<and>
         sc_timers (sc_ticks k s) = sc_timers s \<and>
         (countdownTimerEl (sc_ticks k s) = None) = (countdownTimerEl s = None) \<and>
         shown (countdownTimerEl (sc_ticks k s)) =
           (if k = 0 then shown (countdownTimerEl s)
            else map_option (\<lambda>_. decimal (timeLeft s - int k)) (countdownTimerEl s))"
  using assms
proof (induction k)
  case 0
  then show ?case by simp
next
  case (Suc k)
  then have IH: "timeLeft (sc_ticks k s) = timeLeft s - int k"
    "canVerify (sc_ticks k s) = canVerify s"
    "canResend (sc_ticks k s) = canResend s"
    "isExpired (sc_ticks k s) = isExpired s"
    "codeTextarea (sc_ticks k s) = codeTextarea s"
    "sc_verifyButton (sc_ticks k s) = sc_verifyButton s"
    "sc_resendButton (sc_ticks k s) = sc_resendButton s"
    "countdownInterval (sc_ticks k s) = countdownInterval s"
    "sc_timers (sc_ticks k s) = sc_timers s"
    "(countdownTimerEl (sc_ticks k s) = None) = (countdownTimerEl s = None)"
    by simp_all
  from Suc.prems IH(1) have big: "1 < timeLeft (sc_ticks k s)"
    and up: "timeLeft (sc_ticks k s) \<le> 2 ^ 53" by simp_all
  from Suc.prems IH(9) have lv: "live (sc_timers (sc_ticks k s)) \<noteq> []" by simp
  note none = IH(10)
  have step: "sc_ticks (Suc k) s = countdownCallback (sc_ticks k s)"
    using lv by (simp add: sc_tick_def)
  have tl: "timeLeft (sc_ticks k s) - 1 = timeLeft s - int (Suc k)"
    using IH(1) by simp
  show ?case
    unfolding step countdownCallback_running [OF big up] using IH(2-9) none tl
    by (cases "countdownTimerEl (sc_ticks k s)"; cases "countdownTimerEl s")
       (simp_all, simp_all add: algebra_simps)
qed

lemma sc_tick_expire:
  assumes "live (sc_timers s) = [h]" "countdownInterval s = Some h" "timeLeft s \<le> 1"
    "- (2 ^ 53) < timeLeft s"
  shows "timeLeft (sc_tick s) = timeLeft s - 1 \<and>
         isExpired (sc_tick s) \<and> \<not> canVerify (sc_tick s) \<and> canResend (sc_tick s) \<and>
         \<not> enabled (codeTextarea (sc_tick s)) \<and>
         \<not> enabled (sc_verifyButton (sc_tick s)) \<and>
         enabled (sc_resendButton (sc_tick s)) = (sc_resendButton s \<noteq> None) \<and>
         shown (countdownTimerEl (sc_tick s)) =
           map_option (\<lambda>_. decimal (timeLeft s - 1)) (countdownTimerEl s) \<and>
         live (sc_timers (sc_tick s)) = [] \<and>
         cancelled (sc_timers (sc_tick s)) = Suc (cancelled (sc_timers s))"
  using assms
  by (auto simp: sc_tick_def countdownCallback_def updateUI_def Let_def clearInterval_def
      decrement_exact toString_safe split: option.splits)

lemma sc_init_started:
  assumes "0 < cfg_initialCountdown cfg"
  shows "timeLeft (initTokenStatusChecker p cfg) = cfg_initialCountdown cfg \<and>
         canVerify (initTokenStatusChecker p cfg) = cfg_canVerify cfg \<and>
         canResend (initTokenStatusChecker p cfg) = cfg_canResend cfg \<and>
         isExpired (initTokenStatusChecker p cfg) = cfg_isExpired cfg \<and>
         enabled (codeTextarea (initTokenStatusChecker p cfg)) =
           (verification_code_el p \<noteq> None \<and> cfg_canVerify cfg) \<and>
         enabled (sc_verifyButton (initTokenStatusChecker p cfg)) =
           (verify_code_button_el p \<noteq> None \<and> cfg_canVerify cfg) \<and>
         enabled (sc_resendButton (initTokenStatusChecker p cfg)) =
           (resend_code_button_el p \<noteq> None \<and> cfg_canResend cfg) \<and>
         countdownTimerEl (initTokenStatusChecker p cfg) = countdown_timer_el p \<and>
         countdownInterval (initTokenStatusChecker p cfg) = Some 1 \<and>
         live (sc_timers (initTokenStatusChecker p cfg)) = [1] \<and>
         cancelled (sc_timers (initTokenStatusChecker p cfg)) = 0"
  using assms
  by (cases "verification_code_el p"; cases "verify_code_button_el p";
      cases "resend_code_button_el p")
     (simp_all add: initTokenStatusChecker_def startCountdown_def updateUI_def Let_def
       clearInterval_def setInterval_def no_timers_def)

lemma sc_init_on_load_expired:
  assumes "cfg_initialCountdown cfg \<le> 0"
  shows "timeLeft (initTokenStatusChecker p cfg) = cfg_initialCountdown cfg \<and>
         canVerify (initTokenStatusChecker p cfg) = cfg_canVerify cfg \<and>
         canResend (initTokenStatusChecker p cfg) = cfg_canResend cfg \<and>
         isExpired (initTokenStatusChecker p cfg) = cfg_isExpired cfg \<and>
         enabled (codeTextarea (initTokenStatusChecker p cfg)) =
           (verification_code_el p \<noteq> None \<and> cfg_canVerify cfg) \<and>
         enabled (sc_verifyButton (initTokenStatusChecker p cfg)) =
           (verify_code_button_el p \<noteq> None \<and> cfg_canVerify cfg) \<and>
         enabled (sc_resendButton (initTokenStatusChecker p cfg)) =
           (resend_code_button_el p \<noteq> None \<and> cfg_canResend cfg) \<and>
         shown (countdownTimerEl (initTokenStatusChecker p cfg)) =
           map_option (\<lambda>_. ''0'') (countdown_timer_el p) \<and>
         countdownInterval (initTokenStatusChecker p cfg) = None \<and>
         live (sc_timers (initTokenStatusChecker p cfg)) = [] \<and>
         cancelled (sc_timers (initTokenStatusChecker p cfg)) = 0"
  using assms
  by (cases "verification_code_el p"; cases "verify_code_button_el p";
      cases "resend_code_button_el p"; cases "countdown_timer_el p")
     (simp_all add: initTokenStatusChecker_def startCountdown_def updateUI_def Let_def
       clearInterval_def setInterval_def no_timers_def)

lemma sc_init_resend_bound:
  "(sc_resendButton (initTokenStatusChecker p cfg) \<noteq> None) = (resend_code_button_el p \<noteq> None)"
  by (cases "resend_code_button_el p")
     (simp_all add: initTokenStatusChecker_def startCountdown_def updateUI_def Let_def
       setInterval_def split: prod.splits)

lemma sc_init_timer_bound:
  "(countdownTimerEl (initTokenStatusChecker p cfg) = None) = (countdown_timer_el p = None)"
  by (cases "countdown_timer_el p")
     (simp_all add: initTokenStatusChecker_def startCountdown_def updateUI_def Let_def
       setInterval_def split: prod.splits)

lemma sc_before_expiry:
  assumes "int k < cfg_initialCountdown cfg" "cfg_initialCountdown cfg \<le> 2 ^ 53"
  shows "timeLeft (sc_ticks k (initTokenStatusChecker p cfg)) = cfg_initialCountdown cfg - int k \<and>
         canVerify (sc_ticks k (initTokenStatusChecker p cfg)) = cfg_canVerify cfg \<and>
         canResend (sc_ticks k (initTokenStatusChecker p cfg)) = cfg_canResend cfg \<and>
         isExpired (sc_ticks k (initTokenStatusChecker p cfg)) = cfg_isExpired cfg \<and>
         enabled (codeTextarea (sc_ticks k (initTokenStatusChecker p cfg))) =
           (verification_code_el p \<noteq> None \<and> cfg_canVerify cfg) \<and>
         enabled (sc_verifyButton (sc_ticks k (initTokenStatusChecker p cfg))) =
           (verify_code_button_el p \<noteq> None \<and> cfg_canVerify cfg) \<and>
         enabled (sc_resendButton (sc_ticks k (initTokenStatusChecker p cfg))) =
           (resend_code_button_el p \<noteq> None \<and> cfg_canResend cfg) \<and>
         shown (countdownTimerEl (sc_ticks k (initTokenStatusChecker p cfg))) =
           (if k = 0 then shown (countdown_timer_el p)
            else map_option (\<lambda>_. decimal (cfg_initialCountdown cfg - int k)) (countdown_timer_el p)) \<and>
         live (sc_timers (sc_ticks k (initTokenStatusChecker p cfg))) = [1] \<and>
         cancelled (sc_timers (sc_ticks k (initTokenStatusChecker p cfg))) = 0"
proof -
  let ?s = "initTokenStatusChecker p cfg"
  from assms have pos: "0 < cfg_initialCountdown cfg" by simp
  note I = sc_init_started [OF pos, of p]
  from I have lv: "live (sc_timers ?s) \<noteq> []" by simp
  from I assms have lt: "int k < timeLeft ?s" and up: "timeLeft ?s \<le> 2 ^ 53" by simp_all
  note R = sc_ticks_running [OF lv lt up]
  show ?thesis using R I by simp
qed

lemma decimal_0: "decimal 0 = ''0''"
  by code_simp

lemma sc_after_expiry:
  assumes "0 < cfg_initialCountdown cfg" "cfg_initialCountdown cfg \<le> int k"
    "cfg_initialCountdown cfg \<le> 2 ^ 53"
  shows "timeLeft (sc_ticks k (initTokenStatusChecker p cfg)) = 0 \<and>
         isExpired (sc_ticks k (initTokenStatusChecker p cfg)) \<and>
         \<not> canVerify (sc_ticks k (initTokenStatusChecker p cfg)) \<and>
         canResend (sc_ticks k (initTokenStatusChecker p cfg)) \<and>
         \<not> enabled (codeTextarea (sc_ticks k (initTokenStatusChecker p cfg))) \<and>
         \<not> enabled (sc_verifyButton (sc_ticks k (initTokenStatusChecker p cfg))) \<and>
         enabled (sc_resendButton (sc_ticks k (initTokenStatusChecker p cfg))) =
           (resend_code_button_el p \<noteq> None) \<and>
         shown (countdownTimerEl (sc_ticks k (initTokenStatusChecker p cfg))) =
           map_option (\<lambda>_. ''0'') (countdown_timer_el p) \<and>
         live (sc_timers (sc_ticks k (initTokenStatusChecker p cfg))) = [] \<and>
         cancelled (sc_timers (sc_ticks k (initTokenStatusChecker p cfg))) = 1"
proof -
  let ?s = "initTokenStatusChecker p cfg"
  let ?n = "cfg_initialCountdown cfg"
  note I = sc_init_started [OF assms(1), of p]
  from I have lv: "live (sc_timers ?s) \<noteq> []" by simp
  define m where "m = nat ?n - 1"
  from assms(1) I have lt: "int m < timeLeft ?s" by (simp add: m_def)
  from assms(3) I have up: "timeLeft ?s \<le> 2 ^ 53" by simp
  note R = sc_ticks_running [OF lv lt up]
  let ?t = "sc_ticks m ?s"
  from R I assms(1) have t: "live (sc_timers ?t) = [1]" "countdownInterval ?t = Some 1"
    "timeLeft ?t \<le> 1" "- (2 ^ 53) < timeLeft ?t" "timeLeft ?t = 1"
    by (simp_all add: m_def)
  note E = sc_tick_expire [OF t(1) t(2) t(3) t(4)]
  from assms have k: "k = Suc m + (k - Suc m)" by (simp add: m_def)
  have "sc_ticks k ?s = sc_ticks (k - Suc m) (sc_ticks (Suc m) ?s)"
    using sc_ticks_add [of "Suc m" "k - Suc m" ?s] k by simp
  also have "\<dots> = sc_tick ?t"
    using E by (simp add: sc_ticks_stopped)
  finally have eq: "sc_ticks k ?s = sc_tick ?t" .
  have tb: "(countdownTimerEl ?t = None) = (countdown_timer_el p = None)"
    using R sc_init_timer_bound [of p cfg] by simp
  have sh: "map_option (\<lambda>_. ''0'') (countdownTimerEl ?t) = map_option (\<lambda>_. ''0'') (countdown_timer_el p)"
    using tb by (cases "countdownTimerEl ?t"; cases "countdown_timer_el p") simp_all
  show ?thesis
    unfolding eq using E R I t(5) sh sc_init_resend_bound [of p cfg] by (simp add: decimal_0)
qed

section \<open>The claims\<close>




lemma tick_one_way:
  "countdown (tick s) \<le> countdown s \<and>
   (countdown s \<le> 0 \<longrightarrow>
      (shown (timerDisplay s) = Some expiredMessage \<longrightarrow>
         shown (timerDisplay (tick s)) = Some expiredMessage) \<and>
      (\<not> enabled (verifyButton s) \<longrightarrow> \<not> enabled (verifyButton (tick s))) \<and>
      (enabled (resendButton s) \<longrightarrow> enabled (resendButton (tick s))))"
  by (auto simp: tick_def updateTimer_def decrement_le split: option.splits)

lemma ticks_one_way:
  "countdown (ticks k s) \<le> countdown s \<and>
   (countdown s \<le> 0 \<longrightarrow>
      (shown (timerDisplay s) = Some expiredMessage \<longrightarrow>
         shown (timerDisplay (ticks k s)) = Some expiredMessage) \<and>
      (\<not> enabled (verifyButton s) \<longrightarrow> \<not> enabled (verifyButton (ticks k s))) \<and>
      (enabled (resendButton s) \<longrightarrow> enabled (resendButton (ticks k s))))"
proof (induction k)
  case 0
  show ?case by simp
next
  case (Suc k)
  from tick_one_way [of "ticks k s"] Suc show ?case
    by (simp del: enabled_simps shown_simps)
qed

lemma sc_tick_one_way:
  "timeLeft (sc_tick c) \<le> timeLeft c \<and>
   (isExpired c \<longrightarrow> isExpired (sc_tick c)) \<and>
   (\<not> canVerify c \<longrightarrow> \<not> canVerify (sc_tick c)) \<and>
   (canResend c \<longrightarrow> canResend (sc_tick c))"
  by (simp add: sc_tick_def countdownCallback_def updateUI_def Let_def decrement_le)

lemma sc_ticks_one_way:
  "timeLeft (sc_ticks k c) \<le> timeLeft c \<and>
   (isExpired c \<longrightarrow> isExpired (sc_ticks k c)) \<and>
   (\<not> canVerify c \<longrightarrow> \<not> canVerify (sc_ticks k c)) \<and>
   (canResend c \<longrightarrow> canResend (sc_ticks k c))"
proof (induction k)
  case 0
  show ?case by simp
next
  case (Suc k)
  from sc_tick_one_way [of "sc_ticks k c"] Suc show ?case
    by simp
qed

text \<open>
  C9. Once started, the remaining seconds never increase, and expiry is one-way: no
  operation brings an expired controller back. The only operation either script has
  after initialization is the tick of its interval; the statement is proved for ticks
  from an arbitrary state, reached or not.
  token_timer.js: \<open>countdown\<close> never increases; once \<open>countdown \<le> 0\<close> it stays so, a
  display that carries the expired message keeps it, a verify button that is not enabled
  stays so and an enabled resend button stays enabled.
  token_status_checker.js: \<open>timeLeft\<close> never increases; \<open>isExpired\<close>, once true, stays
  true, \<open>canVerify\<close>, once false, stays false, and \<open>canResend\<close>, once true, stays true.
\<close>

theorem countdown_monotone_expiry_one_way:
  "countdown (ticks k s) \<le> countdown s \<and>
   (countdown s \<le> 0 \<and> shown (timerDisplay s) = Some expiredMessage \<longrightarrow>
      countdown (ticks k s) \<le> 0 \<and> shown (timerDisplay (ticks k s)) = Some expiredMessage) \<and>
   (countdown s \<le> 0 \<and> \<not> enabled (verifyButton s) \<longrightarrow> \<not> enabled (verifyButton (ticks k s))) \<and>
   (countdown s \<le> 0 \<and> enabled (resendButton s) \<longrightarrow> enabled (resendButton (ticks k s))) \<and>
   timeLeft (sc_ticks k c) \<le> timeLeft c \<and>
   (isExpired c \<longrightarrow> isExpired (sc_ticks k c)) \<and>
   (\<not> canVerify c \<longrightarrow> \<not> canVerify (sc_ticks k c)) \<and>
   (canResend c \<longrightarrow> canResend (sc_ticks k c))"
  using ticks_one_way [of k s] sc_ticks_one_way [of k c]
  by (simp del: enabled_simps shown_simps)

theorem countdown_monotone_expiry_one_way_witness:
  "countdown (ticks 3 (initTokenTimer (sample_page ''3''))) \<le> 0 \<and>
   shown (timerDisplay (ticks 3 (initTokenTimer (sample_page ''3'')))) = Some expiredMessage \<and>
   shown (timerDisplay (ticks 4 (ticks 3 (initTokenTimer (sample_page ''3''))))) = Some expiredMessage \<and>
   \<not> enabled (verifyButton (ticks 4 (ticks 3 (initTokenTimer (sample_page ''3''))))) \<and>
   enabled (resendButton (ticks 4 (ticks 3 (initTokenTimer (sample_page ''3''))))) \<and>
   isExpired (sc_ticks 3 (initTokenStatusChecker sample_checker_page (sample_config True False False 3))) \<and>
   isExpired (sc_ticks 4 (sc_ticks 3 (initTokenStatusChecker sample_checker_page (sample_config True False False 3)))) \<and>
   \<not> canVerify (sc_ticks 4 (sc_ticks 3 (initTokenStatusChecker sample_checker_page (sample_config True False False 3)))) \<and>
   canResend (sc_ticks 4 (sc_ticks 3 (initTokenStatusChecker sample_checker_page (sample_config True False False 3)))) \<and>
   timeLeft (sc_ticks 4 (sc_ticks 3 (initTokenStatusChecker sample_checker_page (sample_config True False False 3))))
     \<le> timeLeft (sc_ticks 3 (initTokenStatusChecker sample_checker_page (sample_config True False False 3)))"
proof -
  have a: "countdown (ticks 3 (initTokenTimer (sample_page ''3''))) \<le> 0"
    "shown (timerDisplay (ticks 3 (initTokenTimer (sample_page ''3'')))) = Some expiredMessage"
    "\<not> enabled (verifyButton (ticks 3 (initTokenTimer (sample_page ''3''))))"
    "enabled (resendButton (ticks 3 (initTokenTimer (sample_page ''3''))))"
    by code_simp+
  have b: "isExpired (sc_ticks 3 (initTokenStatusChecker sample_checker_page (sample_config True False False 3)))"
    "\<not> canVerify (sc_ticks 3 (initTokenStatusChecker sample_checker_page (sample_config True False False 3)))"
    "canResend (sc_ticks 3 (initTokenStatusChecker sample_checker_page (sample_config True False False 3)))"
    by code_simp+
  from countdown_monotone_expiry_one_way [of 4 "ticks 3 (initTokenTimer (sample_page ''3''))"
      "sc_ticks 3 (initTokenStatusChecker sample_checker_page (sample_config True False False 3))"] a b
  show ?thesis by (simp del: enabled_simps shown_simps)
qed











lemma valid_toggled: "(c \<in> set (classList_toggle c force cs)) = force"
  by (simp add: classList_toggle_def classList_add_def classList_remove_def)

lemma test_class_set:
  "test_class negated ranges val = (\<exists>c \<in> set val. in_class ranges c \<noteq> negated)"
  by (simp add: test_class_def list_ex_iff)

lemma rule_uppercase:
  "test_class False [(CHR ''A'', CHR ''Z'')] val = (\<exists>c \<in> set val. of_char c \<in> {65 .. 90 :: nat})"
  by (simp add: test_class_set in_class_def)

lemma rule_lowercase:
  "test_class False [(CHR ''a'', CHR ''z'')] val = (\<exists>c \<in> set val. of_char c \<in> {97 .. 122 :: nat})"
  by (simp add: test_class_set in_class_def)

lemma rule_number:
  "test_class False [(CHR ''0'', CHR ''9'')] val = (\<exists>c \<in> set val. of_char c \<in> {48 .. 57 :: nat})"
  by (simp add: test_class_set in_class_def)

lemma rule_symbol:
  "test_class True [(CHR ''A'', CHR ''Z''), (CHR ''a'', CHR ''z''), (CHR ''0'', CHR ''9'')] val =
     (\<exists>c \<in> set val. of_char c \<notin> {65 .. 90 :: nat} \<union> {97 .. 122} \<union> {48 .. 57})"
  by (auto simp: test_class_set in_class_def)

lemma toggle_items_all_present:
  assumes "cl ''length'' = Some e1" "cl ''uppercase'' = Some e2" "cl ''lowercase'' = Some e3"
    "cl ''number'' = Some e4" "cl ''symbol'' = Some e5"
  shows "toggle_items [(''length'', b1), (''uppercase'', b2), (''lowercase'', b3),
                       (''number'', b4), (''symbol'', b5)] cl =
         Inr (cl(''length'' \<mapsto> e1\<lparr>classList := classList_toggle ''valid'' b1 (classList e1)\<rparr>,
                 ''uppercase'' \<mapsto> e2\<lparr>classList := classList_toggle ''valid'' b2 (classList e2)\<rparr>,
                 ''lowercase'' \<mapsto> e3\<lparr>classList := classList_toggle ''valid'' b3 (classList e3)\<rparr>,
                 ''number'' \<mapsto> e4\<lparr>classList := classList_toggle ''valid'' b4 (classList e4)\<rparr>,
                 ''symbol'' \<mapsto> e5\<lparr>classList := classList_toggle ''valid'' b5 (classList e5)\<rparr>))"
  using assms by simp

text \<open>
  C10. After an input event on a page that has the five checklist items and the
  container, the listener finishes without error, the container is hidden
  (\<open>display = none\<close>, otherwise \<open>block\<close>) exactly when the password has at least 8 code
  units, an uppercase letter \<open>A-Z\<close>, a lowercase letter \<open>a-z\<close>, a digit \<open>0-9\<close> and a code
  unit outside these three ranges, and each item carries the class \<open>valid\<close> exactly when
  its rule holds, whatever classes it carried before. The ranges are written by their
  code points: 65 to 90, 97 to 122 and 48 to 57.
\<close>

theorem checklist_reflects_rules:
  assumes "checklist pg ''length'' = Some e1" "checklist pg ''uppercase'' = Some e2"
    "checklist pg ''lowercase'' = Some e3" "checklist pg ''number'' = Some e4"
    "checklist pg ''symbol'' = Some e5" "checklistContainer pg = Some box"
  shows "\<exists>pg' box' i1 i2 i3 i4 i5.
    on_input val pg = Inr pg' \<and>
    checklistContainer pg' = Some box' \<and>
    display box' =
      (if 8 \<le> length val \<and>
          (\<exists>c \<in> set val. of_char c \<in> {65 .. 90 :: nat}) \<and>
          (\<exists>c \<in> set val. of_char c \<in> {97 .. 122 :: nat}) \<and>
          (\<exists>c \<in> set val. of_char c \<in> {48 .. 57 :: nat}) \<and>
          (\<exists>c \<in> set val. of_char c \<notin> {65 .. 90 :: nat} \<union> {97 .. 122} \<union> {48 .. 57})
       then ''none'' else ''block'') \<and>
    checklist pg' ''length'' = Some i1 \<and>
    (''valid'' \<in> set (classList i1)) = (8 \<le> length val) \<and>
    checklist pg' ''uppercase'' = Some i2 \<and>
    (''valid'' \<in> set (classList i2)) = (\<exists>c \<in> set val. of_char c \<in> {65 .. 90 :: nat}) \<and>
    checklist pg' ''lowercase'' = Some i3 \<and>
    (''valid'' \<in> set (classList i3)) = (\<exists>c \<in> set val. of_char c \<in> {97 .. 122 :: nat}) \<and>
    checklist pg' ''number'' = Some i4 \<and>
    (''valid'' \<in> set (classList i4)) = (\<exists>c \<in> set val. of_char c \<in> {48 .. 57 :: nat}) \<and>
    checklist pg' ''symbol'' = Some i5 \<and>
    (''valid'' \<in> set (classList i5)) =
      (\<exists>c \<in> set val. of_char c \<notin> {65 .. 90 :: nat} \<union> {97 .. 122} \<union> {48 .. 57})"
proof -
  note T = toggle_items_all_present [OF assms(1-5)]
  show ?thesis
    unfolding on_input_def rules_def T
    using assms(6)
    by (simp add: Let_def valid_toggled rule_uppercase rule_lowercase rule_number rule_symbol
        del: Un_iff atLeastAtMost_iff)
qed

theorem checklist_reflects_rules_witness:
  "checklist sample_checklist ''length'' = Some blank \<and>
   checklist sample_checklist ''uppercase'' = Some blank \<and>
   checklist sample_checklist ''lowercase'' = Some blank \<and>
   checklist sample_checklist ''number'' = Some blank \<and>
   checklist sample_checklist ''symbol'' = Some blank \<and>
   checklistContainer sample_checklist = Some blank \<and>
   (\<exists>pg' box' i1 i5.
      on_input ''Passw0rd!'' sample_checklist = Inr pg' \<and>
      checklistContainer pg' = Some box' \<and> display box' = ''none'' \<and>
      checklist pg' ''length'' = Some i1 \<and> ''valid'' \<in> set (classList i1) \<and>
      checklist pg' ''symbol'' = Some i5 \<and> ''valid'' \<in> set (classList i5)) \<and>
   (\<exists>pg' box' i1 i3.
      on_input ''secret'' sample_checklist = Inr pg' \<and>
      checklistContainer pg' = Some box' \<and> display box' = ''block'' \<and>
      checklist pg' ''length'' = Some i1 \<and> ''valid'' \<notin> set (classList i1) \<and>
      checklist pg' ''lowercase'' = Some i3 \<and> ''valid'' \<in> set (classList i3))"
proof -
  have h: "checklist sample_checklist ''length'' = Some blank"
    "checklist sample_checklist ''uppercase'' = Some blank"
    "checklist sample_checklist ''lowercase'' = Some blank"
    "checklist sample_checklist ''number'' = Some blank"
    "checklist sample_checklist ''symbol'' = Some blank"
    "checklistContainer sample_checklist = Some blank"
    by (simp_all add: sample_checklist_def)
  from checklist_reflects_rules [OF h, of "''Passw0rd!''"]
  have a: "\<exists>pg' box' i1 i5.
      on_input ''Passw0rd!'' sample_checklist = Inr pg' \<and>
      checklistContainer pg' = Some box' \<and> display box' = ''none'' \<and>
      checklist pg' ''length'' = Some i1 \<and> ''valid'' \<in> set (classList i1) \<and>
      checklist pg' ''symbol'' = Some i5 \<and> ''valid'' \<in> set (classList i5)"
    by (simp, blast)
  from checklist_reflects_rules [OF h, of "''secret''"]
  have b: "\<exists>pg' box' i1 i3.
      on_input ''secret'' sample_checklist = Inr pg' \<and>
      checklistContainer pg' = Some box' \<and> display box' = ''block'' \<and>
      checklist pg' ''length'' = Some i1 \<and> ''valid'' \<notin> set (classList i1) \<and>
      checklist pg' ''lowercase'' = Some i3 \<and> ''valid'' \<in> set (classList i3)"
    by (simp, blast)
  from h a b show ?thesis by blast
qed

lemma tick_keeps_exclusion:
  "\<not> (enabled (verifyButton s) \<and> enabled (resendButton s)) \<Longrightarrow>
   \<not> (enabled (verifyButton (tick s)) \<and> enabled (resendButton (tick s)))"
  by (auto simp: tick_def updateTimer_def split: option.splits)

lemma ticks_keep_exclusion:
  "\<not> (enabled (verifyButton s) \<and> enabled (resendButton s)) \<Longrightarrow>
   \<not> (enabled (verifyButton (ticks k s)) \<and> enabled (resendButton (ticks k s)))"
  by (induction k) (simp_all add: tick_keeps_exclusion del: enabled_simps)

lemma init_exclusion:
  assumes "token_timer_el p = Some d"
  shows "\<not> (enabled (verifyButton (initTokenTimer p)) \<and> enabled (resendButton (initTokenTimer p)))"
  by (cases "resend_btn_el p"; cases "verify_btn_el p")
     (simp_all add: init_bound [OF assms] Let_def updateTimer_def)

lemma sc_tick_keeps_exclusion:
  "\<not> (canVerify c \<and> canResend c) \<and>
   \<not> (enabled (sc_verifyButton c) \<and> enabled (sc_resendButton c)) \<Longrightarrow>
   \<not> (canVerify (sc_tick c) \<and> canResend (sc_tick c)) \<and>
   \<not> (enabled (sc_verifyButton (sc_tick c)) \<and> enabled (sc_resendButton (sc_tick c)))"
  by (auto simp: sc_tick_def countdownCallback_def updateUI_def Let_def split: option.splits)

lemma sc_ticks_keep_exclusion:
  "\<not> (canVerify c \<and> canResend c) \<and>
   \<not> (enabled (sc_verifyButton c) \<and> enabled (sc_resendButton c)) \<Longrightarrow>
   \<not> (canVerify (sc_ticks k c) \<and> canResend (sc_ticks k c)) \<and>
   \<not> (enabled (sc_verifyButton (sc_ticks k c)) \<and> enabled (sc_resendButton (sc_ticks k c)))"
proof (induction k)
  case 0
  then show ?case by simp
next
  case (Suc k)
  from sc_tick_keeps_exclusion [OF Suc.IH [OF Suc.prems]] show ?case by simp
qed

lemma sc_init_exclusion:
  assumes "\<not> (cfg_canVerify cfg \<and> cfg_canResend cfg)"
  shows "\<not> (canVerify (initTokenStatusChecker q cfg) \<and> canResend (initTokenStatusChecker q cfg)) \<and>
   \<not> (enabled (sc_verifyButton (initTokenStatusChecker q cfg)) \<and>
      enabled (sc_resendButton (initTokenStatusChecker q cfg)))"
proof (cases "0 < cfg_initialCountdown cfg")
  case True
  from sc_init_started [OF True, of q] assms show ?thesis by auto
next
  case False
  then have "cfg_initialCountdown cfg \<le> 0" by simp
  from sc_init_on_load_expired [OF this, of q] assms show ?thesis by auto
qed

text \<open>
  C7 (as amended). In token_timer.js, on a page that has the timer display, the verify
  control and the resend control are never both enabled, in any state from
  initialization through any number of ticks, whatever the page held and whatever
  value was configured: \<open>initTokenTimer\<close> disables the resend button before the first
  call of \<open>updateTimer\<close>, and \<open>updateTimer\<close> enables it only in the branch that disables
  the verify button. Without the timer display \<open>initTokenTimer\<close> returns at line 76 and
  the controls stay as the page has them. In token_status_checker.js the flags
  \<open>canVerify\<close> and \<open>canResend\<close> come from the configuration; they, and the two
  controls, are never both on provided the configuration does not switch both on.
\<close>

theorem verify_and_resend_exclusive:
  "(token_timer_el p = Some d \<longrightarrow>
      \<not> (enabled (verifyButton (ticks k (initTokenTimer p))) \<and>
         enabled (resendButton (ticks k (initTokenTimer p))))) \<and>
   (\<not> (cfg_canVerify cfg \<and> cfg_canResend cfg) \<longrightarrow>
      \<not> (canVerify (sc_ticks k (initTokenStatusChecker q cfg)) \<and>
         canResend (sc_ticks k (initTokenStatusChecker q cfg))) \<and>
      \<not> (enabled (sc_verifyButton (sc_ticks k (initTokenStatusChecker q cfg))) \<and>
         enabled (sc_resendButton (sc_ticks k (initTokenStatusChecker q cfg)))))"
proof (intro conjI impI)
  assume "token_timer_el p = Some d"
  from ticks_keep_exclusion [OF init_exclusion [OF this]]
  show "\<not> (enabled (verifyButton (ticks k (initTokenTimer p))) \<and>
         enabled (resendButton (ticks k (initTokenTimer p))))" .
next
  assume c: "\<not> (cfg_canVerify cfg \<and> cfg_canResend cfg)"
  from sc_ticks_keep_exclusion [OF sc_init_exclusion [OF c], of k q]
  show "\<not> (canVerify (sc_ticks k (initTokenStatusChecker q cfg)) \<and>
         canResend (sc_ticks k (initTokenStatusChecker q cfg)))"
    and "\<not> (enabled (sc_verifyButton (sc_ticks k (initTokenStatusChecker q cfg))) \<and>
         enabled (sc_resendButton (sc_ticks k (initTokenStatusChecker q cfg))))"
    by simp_all
qed

theorem verify_and_resend_exclusive_witness:
  "token_timer_el (sample_page ''3'') = Some blank \<and>
   enabled (verifyButton (ticks 1 (initTokenTimer (sample_page ''3'')))) \<and>
   \<not> enabled (resendButton (ticks 1 (initTokenTimer (sample_page ''3'')))) \<and>
   \<not> enabled (verifyButton (ticks 3 (initTokenTimer (sample_page ''3'')))) \<and>
   enabled (resendButton (ticks 3 (initTokenTimer (sample_page ''3'')))) \<and>
   \<not> enabled (resendButton (ticks 3 (initTokenTimer (sample_page ''9007199254740996'')))) \<and>
   \<not> (canVerify (sc_ticks 1 (initTokenStatusChecker sample_checker_page (sample_config True False False 3))) \<and>
      canResend (sc_ticks 1 (initTokenStatusChecker sample_checker_page (sample_config True False False 3))))"
proof -
  have d: "token_timer_el (sample_page ''3'') = Some blank"
    "token_timer_el (sample_page ''9007199254740996'') = Some blank"
    by (simp_all add: sample_page_def)
  have c: "\<not> (cfg_canVerify (sample_config True False False 3) \<and> cfg_canResend (sample_config True False False 3))"
    by (simp add: sample_config_def)
  have e1: "enabled (verifyButton (ticks 1 (initTokenTimer (sample_page ''3''))))"
    by code_simp
  have e3: "enabled (resendButton (ticks 3 (initTokenTimer (sample_page ''3''))))"
    by code_simp
  have e4: "enabled (verifyButton (ticks 3 (initTokenTimer (sample_page ''9007199254740996''))))"
    by code_simp
  from verify_and_resend_exclusive [of "sample_page ''3''" blank 1 "sample_config True False False 3" sample_checker_page]
    verify_and_resend_exclusive [of "sample_page ''3''" blank 3 "sample_config True False False 3" sample_checker_page]
    verify_and_resend_exclusive [of "sample_page ''9007199254740996''" blank 3 "sample_config True False False 3" sample_checker_page]
    d c e1 e3 e4
  show ?thesis by simp
qed

theorem verify_and_resend_exclusive_counterexample:
  "enabled (verifyButton (ticks 2 (initTokenTimer ((sample_page ''3'')\<lparr>token_timer_el := None\<rparr>)))) \<and>
   enabled (resendButton (ticks 2 (initTokenTimer ((sample_page ''3'')\<lparr>token_timer_el := None\<rparr>)))) \<and>
   canVerify (sc_ticks 1 (initTokenStatusChecker sample_checker_page (sample_config True True False 3))) \<and>
   canResend (sc_ticks 1 (initTokenStatusChecker sample_checker_page (sample_config True True False 3))) \<and>
   enabled (sc_verifyButton (sc_ticks 1 (initTokenStatusChecker sample_checker_page (sample_config True True False 3)))) \<and>
   enabled (sc_resendButton (sc_ticks 1 (initTokenStatusChecker sample_checker_page (sample_config True True False 3))))"
  by code_simp

end
